theory Spec2Isabelle
  imports Complex_Main
begin

section \<open>Values of the conversion module\<close>

text \<open>
  The module \<open>conversion.py\<close> holds two functions, \<open>raw_to_phy\<close> and
  \<open>generate_time\<close>. Both work on numpy arrays of float64. An array element is
  modelled as an exact real number or one of the three special values a numpy
  division or logarithm can produce (numpy warns on them and goes on, it does not
  raise). Rounding and overflow of float64 are not modelled, and a zero divisor is
  the positive zero.
\<close>

datatype npfloat = Fin real | PInf | NInf | NaN

text \<open>
  Every \<open>raise\<close> of the module is a \<open>RuntimeError\<close>, told apart by its message:
  \<^item> \<open>ResolutionNotInteger\<close>: "The specified resolution needs to be an integer."
  \<^item> \<open>NoTransferFunction\<close>: "The output specified unit does not have a defined
    transfer function for the used device."
  \<^item> \<open>InvalidUnit\<close>: "The selected output unit is invalid for the sensor under
    analysis."
  \<^item> \<open>InvalidSensor\<close>: "The specified sensor is not valid or for now is not
    available for unit conversion."
  The two others are raised by Python itself: \<open>TypeError\<close> by arithmetic on
  \<open>None\<close>, \<open>ZeroDivisionError\<close> by \<open>/\<close> on a zero number.
\<close>

datatype error =
    ResolutionNotInteger
  | NoTransferFunction
  | InvalidUnit
  | InvalidSensor
  | TypeError
  | ZeroDivisionError

text \<open>A Python number, as \<open>isinstance(resolution, int)\<close> sees it.\<close>

datatype pynum = PyInt int | PyFloat real

fun num_val :: "pynum \<Rightarrow> real" where
  "num_val (PyInt i) = real_of_int i"
| "num_val (PyFloat f) = f"

text \<open>What \<open>raw_to_phy\<close> returns: \<open>out\<close>, which starts as \<open>None\<close>.\<close>

datatype pyout = PyNone | Arr "npfloat list"

section \<open>Arithmetic on array elements\<close>

definition inf_of_sign :: "real \<Rightarrow> npfloat" where
  "inf_of_sign s = (if 0 < s then PInf else if s < 0 then NInf else NaN)"

fun sign_of :: "npfloat \<Rightarrow> real" where
  "sign_of (Fin a) = sgn a"
| "sign_of PInf = 1"
| "sign_of NInf = - 1"
| "sign_of NaN = 0"

fun np_add :: "npfloat \<Rightarrow> npfloat \<Rightarrow> npfloat" where
  "np_add NaN y = NaN"
| "np_add x NaN = NaN"
| "np_add (Fin a) (Fin b) = Fin (a + b)"
| "np_add PInf NInf = NaN"
| "np_add NInf PInf = NaN"
| "np_add PInf y = PInf"
| "np_add x PInf = PInf"
| "np_add NInf y = NInf"
| "np_add x NInf = NInf"

fun np_neg :: "npfloat \<Rightarrow> npfloat" where
  "np_neg (Fin a) = Fin (- a)"
| "np_neg PInf = NInf"
| "np_neg NInf = PInf"
| "np_neg NaN = NaN"

definition np_sub :: "npfloat \<Rightarrow> npfloat \<Rightarrow> npfloat" where
  "np_sub x y = np_add x (np_neg y)"

fun np_mul :: "npfloat \<Rightarrow> npfloat \<Rightarrow> npfloat" where
  "np_mul NaN y = NaN"
| "np_mul x NaN = NaN"
| "np_mul (Fin a) (Fin b) = Fin (a * b)"
| "np_mul x y = inf_of_sign (sign_of x * sign_of y)"

fun np_div :: "npfloat \<Rightarrow> npfloat \<Rightarrow> npfloat" where
  "np_div NaN y = NaN"
| "np_div x NaN = NaN"
| "np_div (Fin a) (Fin b) = (if b = 0 then inf_of_sign (sgn a) else Fin (a / b))"
| "np_div (Fin a) y = Fin 0"
| "np_div x (Fin b) = inf_of_sign (sign_of x * (if b < 0 then - 1 else 1))"
| "np_div x y = NaN"

fun np_log :: "npfloat \<Rightarrow> npfloat" where
  "np_log (Fin a) = (if 0 < a then Fin (ln a) else if a = 0 then NInf else NaN)"
| "np_log PInf = PInf"
| "np_log NInf = NaN"
| "np_log NaN = NaN"

fun np_pow :: "npfloat \<Rightarrow> nat \<Rightarrow> npfloat" where
  "np_pow (Fin a) n = Fin (a ^ n)"
| "np_pow PInf n = (if n = 0 then Fin 1 else PInf)"
| "np_pow NInf n = (if n = 0 then Fin 1 else if odd n then NInf else PInf)"
| "np_pow NaN n = (if n = 0 then Fin 1 else NaN)"

text \<open>
  Python's \<open>2 ** resolution\<close> on an \<open>int\<close>: an integer for a non-negative
  exponent, the float \<open>1 / 2 ** (- resolution)\<close> for a negative one.
\<close>

definition py_pow2 :: "int \<Rightarrow> real" where
  "py_pow2 r = (if 0 \<le> r then 2 ^ nat r else 1 / 2 ^ nat (- r))"

text \<open>Python's \<open>a in b\<close> on two strings: \<open>a\<close> occurs in \<open>b\<close> as a block.\<close>

fun starts_with :: "string \<Rightarrow> string \<Rightarrow> bool" where
  "starts_with [] s = True"
| "starts_with (c # p) [] = False"
| "starts_with (c # p) (d # s) = (c = d \<and> starts_with p s)"

fun str_in :: "string \<Rightarrow> string \<Rightarrow> bool" where
  "str_in p [] = (p = [])"
| "str_in p (c # s) = (starts_with p (c # s) \<or> str_in p s)"

section \<open>\<open>raw_to_phy\<close>\<close>

text \<open>The device lists of the source; the first is the same in five branches.\<close>

definition plux_devices :: "string list" where
  "plux_devices = [''bioplux'', ''bioplux_exp'', ''biosignalsplux'', ''rachimeter'',
                   ''channeller'', ''swifter'', ''ddme_openbanplux'']"

definition bitalino_devices :: "string list" where
  "bitalino_devices = [''bitalino'', ''bitalino_rev'', ''bitalino_riot'']"

definition spo2_devices :: "string list" where
  "spo2_devices = [''channeller'', ''biosignalsplux'', ''swifter'']"

text \<open>
  The denominator \<open>2**resolution - raw_signal\<close> of the resistance, one element.
\<close>

definition ohm_denominator :: "int \<Rightarrow> int \<Rightarrow> real" where
  "ohm_denominator r x = py_pow2 r - real_of_int x"

text \<open>\<open>(1e4 * raw_signal) / (2**resolution - raw_signal)\<close>, one element.\<close>

definition ohm_sample :: "int \<Rightarrow> int \<Rightarrow> npfloat" where
  "ohm_sample r x = np_div (Fin (10000 * real_of_int x)) (Fin (ohm_denominator r x))"

text \<open>
  \<open>1 / (a_0 + a_1 * numpy.log(R1) + a_2 * (numpy.log(R2) ** 3))\<close>, one element;
  \<open>R1\<close> and \<open>R2\<close> are the results of the two calls for the resistance.
\<close>

definition a_0 :: real where "a_0 = 112764514 / 10 ^ 11"
definition a_1 :: real where "a_1 = 234282709 / 10 ^ 12"
definition a_2 :: real where "a_2 = 877303013 / 10 ^ 16"

definition kelvin_sample :: "npfloat \<Rightarrow> npfloat \<Rightarrow> npfloat" where
  "kelvin_sample R1 R2 =
     np_div (Fin 1)
       (np_add (np_add (Fin a_0) (np_mul (Fin a_1) (np_log R1)))
               (np_mul (Fin a_2) (np_pow (np_log R2) 3)))"

text \<open>\<open>((raw_signal / (2 ** resolution)) * vcc - 0.5) * 100\<close>, one element.\<close>

definition bitalino_celsius_sample :: "real \<Rightarrow> int \<Rightarrow> int \<Rightarrow> npfloat" where
  "bitalino_celsius_sample vcc r x =
     np_mul (np_sub (np_mul (np_div (Fin (real_of_int x)) (Fin (py_pow2 r))) (Fin vcc))
                    (Fin (1 / 2)))
            (Fin 100)"

text \<open>
  \<open>(raw_signal * vcc / (2 ** resolution) - vcc * offset) / gain\<close>, one element.
\<close>

definition linear_sample :: "real \<Rightarrow> real \<Rightarrow> real \<Rightarrow> int \<Rightarrow> int \<Rightarrow> npfloat" where
  "linear_sample vcc offset gain r x =
     np_div (np_sub (np_div (np_mul (Fin (real_of_int x)) (Fin vcc)) (Fin (py_pow2 r)))
                    (Fin (vcc * offset)))
            (Fin gain)"

text \<open>\<open>scale_factor * (raw_signal / (2 ** resolution))\<close>, one element.\<close>

definition spo2_sample :: "real \<Rightarrow> int \<Rightarrow> int \<Rightarrow> npfloat" where
  "spo2_sample scale_factor r x =
     np_mul (Fin scale_factor) (np_div (Fin (real_of_int x)) (Fin (py_pow2 r)))"

text \<open>
  \<open>numpy.array(y) op c\<close> on the result \<open>y\<close> of a recursive call: the exception
  of the call goes through, \<open>None\<close> cannot be computed with.
\<close>

fun on_array :: "(npfloat \<Rightarrow> npfloat) \<Rightarrow> error + pyout \<Rightarrow> error + pyout" where
  "on_array f (Inl e) = Inl e"
| "on_array f (Inr PyNone) = Inl TypeError"
| "on_array f (Inr (Arr ys)) = Inr (Arr (map f ys))"

fun on_arrays ::
  "(npfloat \<Rightarrow> npfloat \<Rightarrow> npfloat) \<Rightarrow> error + pyout \<Rightarrow> error + pyout \<Rightarrow> error + pyout"
where
  "on_arrays f (Inl e) y = Inl e"
| "on_arrays f (Inr u) (Inl e) = Inl e"
| "on_arrays f (Inr (Arr us)) (Inr (Arr vs)) = Inr (Arr (map2 f us vs))"
| "on_arrays f (Inr u) (Inr v) = Inl TypeError"

text \<open>The units that are computed from another unit by a recursive call.\<close>

definition unit_rank :: "string \<Rightarrow> nat" where
  "unit_rank option =
     (if option = ''C'' then 2
      else if option = ''K'' \<or> option = ''V'' \<or> option = ''A'' then 1 else 0)"

function raw_to_phy ::
  "string \<Rightarrow> string \<Rightarrow> int list \<Rightarrow> pynum \<Rightarrow> string \<Rightarrow> error + pyout"
where
  "raw_to_phy sensor device raw_signal (PyFloat f) option = Inl ResolutionNotInteger"
| "raw_to_phy sensor device raw_signal (PyInt r) option =
    (if sensor = ''TEMP'' then
       (if option = ''Ohm'' then
          (if device \<in> set plux_devices
           then Inr (Arr (map (ohm_sample r) raw_signal))
           else Inl NoTransferFunction)
        else if option = ''K'' then
          on_arrays kelvin_sample
            (raw_to_phy sensor device raw_signal (PyInt r) ''Ohm'')
            (raw_to_phy sensor device raw_signal (PyInt r) ''Ohm'')
        else if option = ''C'' then
          (if device \<in> set plux_devices
           then on_array (\<lambda>k. np_sub k (Fin (27315 / 100)))
                  (raw_to_phy sensor device raw_signal (PyInt r) ''K'')
           else if device \<in> set bitalino_devices
           then Inr (Arr (map (bitalino_celsius_sample 3 r) raw_signal))
           else Inl NoTransferFunction)
        else Inl InvalidUnit)
     else if sensor = ''EMG'' then
       (if option = ''mV'' then
          (if device \<in> set plux_devices
           then Inr (Arr (map (linear_sample 3 (1 / 2) 1 r) raw_signal))
           else if device \<in> set [''bitalino'']
           then Inr (Arr (map (linear_sample 3 (1 / 2) (1008 / 1000) r) raw_signal))
           else if device \<in> set [''bitalino_rev'', ''bitalino_riot'']
           then Inr (Arr (map (linear_sample 3 (1 / 2) (1009 / 1000) r) raw_signal))
           else Inl NoTransferFunction)
        else if option = ''V'' then
          on_array (\<lambda>v. np_div v (Fin 1000))
            (raw_to_phy sensor device raw_signal (PyInt r) ''mV'')
        else Inr PyNone)
     else if sensor = ''ECG'' then
       (if option = ''mV'' then
          (if device \<in> set plux_devices
           then Inr (Arr (map (linear_sample 3 (1 / 2) (1019 / 1000) r) raw_signal))
           else if device \<in> set bitalino_devices
           then Inr (Arr (map (linear_sample 3 (1 / 2) (11 / 10) r) raw_signal))
           else Inl NoTransferFunction)
        else if option = ''V'' then
          on_array (\<lambda>v. np_div v (Fin 1000))
            (raw_to_phy sensor device raw_signal (PyInt r) ''mV'')
        else Inr PyNone)
     else if sensor = ''BVP'' then
       (if option = ''uA'' then
          (if device \<in> set plux_devices
           then Inr (Arr (map (linear_sample 3 0 (190060606 / 10 ^ 9) r) raw_signal))
           else Inl NoTransferFunction)
        else if option = ''A'' then
          on_array (\<lambda>v. np_mul v (Fin (1 / 10 ^ 6)))
            (raw_to_phy sensor device raw_signal (PyInt r) ''uA'')
        else Inr PyNone)
     else if sensor \<in> set [''SpO2.ARM'', ''SpO2.HEAD'', ''SpO2.FING''] then
       (let scale_factor =
              (if str_in ''ARM'' sensor \<or> str_in ''FING'' sensor then Some (12 / 10)
               else if str_in ''HEAD'' sensor then Some (15 / 100)
               else None)
        in if option = ''uA'' then
             (if device \<in> set spo2_devices
              then (case scale_factor of
                      None \<Rightarrow> Inl TypeError
                    | Some k \<Rightarrow> Inr (Arr (map (spo2_sample k r) raw_signal)))
              else Inl NoTransferFunction)
           else if option = ''A'' then
             on_array (\<lambda>v. np_mul v (Fin (1 / 10 ^ 6)))
               (raw_to_phy sensor device raw_signal (PyInt r) ''uA'')
           else Inr PyNone)
     else Inl InvalidSensor)"
  by pat_completeness auto
termination
  by (relation "measure (\<lambda>(sensor, device, raw_signal, resolution, option). unit_rank option)")
     (auto simp: unit_rank_def)

declare raw_to_phy.simps(2) [simp del]

section \<open>\<open>generate_time\<close>\<close>

text \<open>
  \<open>numpy.linspace(start, stop, num)\<close> with its default \<open>endpoint=True\<close>:
  \<open>div = num - 1\<close>, \<open>step = (stop - start) / div\<close>,
  \<open>y = arange(0, num) * step + start\<close> (times \<open>stop - start\<close> when \<open>div\<close> is
  not positive), and the last element is set to \<open>stop\<close> when \<open>num > 1\<close>.
\<close>

definition linspace :: "real \<Rightarrow> real \<Rightarrow> nat \<Rightarrow> real list" where
  "linspace start stop num =
     (let divisor = int num - 1;
          delta = stop - start;
          y = map real [0..<num];
          y = (if 0 < divisor then map (\<lambda>v. v * (delta / real_of_int divisor)) y
               else map (\<lambda>v. v * delta) y);
          y = map (\<lambda>v. v + start) y
      in if 1 < num then y[num - 1 := stop] else y)"

definition generate_time :: "'a list \<Rightarrow> pynum \<Rightarrow> error + real list" where
  "generate_time signal sample_rate =
     (let nbr_of_samples = length signal
      in if num_val sample_rate = 0 then Inl ZeroDivisionError
         else (let end_of_time = real nbr_of_samples / num_val sample_rate
               in Inr (linspace 0 end_of_time nbr_of_samples)))"

section \<open>Branches of \<open>raw_to_phy\<close>\<close>

lemma py_pow2_pos: "0 < py_pow2 r"
  by (simp add: py_pow2_def)

lemma py_pow2_nonneg_exponent: "0 \<le> r \<Longrightarrow> py_pow2 r = 2 ^ nat r"
  by (simp add: py_pow2_def)

lemma linear_sample_Fin:
  "gain \<noteq> 0 \<Longrightarrow>
   linear_sample vcc offset gain r x =
     Fin ((real_of_int x * vcc / py_pow2 r - vcc * offset) / gain)"
  using py_pow2_pos [of r] by (simp add: linear_sample_def np_sub_def)

lemma spo2_sample_Fin:
  "spo2_sample k r x = Fin (k * (real_of_int x / py_pow2 r))"
  using py_pow2_pos [of r] by (simp add: spo2_sample_def)

lemma map2_same: "map2 f xs xs = map (\<lambda>v. f v v) xs"
  by (induction xs) simp_all

lemma on_arrays_same: "on_arrays f y y = on_array (\<lambda>v. f v v) y"
proof (cases y)
  case (Inl e)
  then show ?thesis by simp
next
  case (Inr u)
  then show ?thesis by (cases u) (simp_all add: map2_same)
qed

lemma temp_ohm:
  "raw_to_phy ''TEMP'' device raw (PyInt r) ''Ohm'' =
     (if device \<in> set plux_devices then Inr (Arr (map (ohm_sample r) raw))
      else Inl NoTransferFunction)"
  by (simp add: raw_to_phy.simps(2))

lemma temp_kelvin:
  "raw_to_phy ''TEMP'' device raw (PyInt r) ''K'' =
     (if device \<in> set plux_devices
      then Inr (Arr (map (\<lambda>x. kelvin_sample (ohm_sample r x) (ohm_sample r x)) raw))
      else Inl NoTransferFunction)"
  by (subst raw_to_phy.simps(2)) (simp add: temp_ohm on_arrays_same comp_def)

lemma temp_celsius_plux:
  "device \<in> set plux_devices \<Longrightarrow>
   raw_to_phy ''TEMP'' device raw (PyInt r) ''C'' =
     on_array (\<lambda>k. np_sub k (Fin (27315 / 100)))
       (raw_to_phy ''TEMP'' device raw (PyInt r) ''K'')"
  by (subst raw_to_phy.simps(2)) simp

lemma kelvin_at_zero: "kelvin_sample (Fin 0) (Fin 0) = Fin 0"
  by (simp add: kelvin_sample_def inf_of_sign_def a_1_def a_2_def)


lemma ohm_sample_zero: "ohm_sample r 0 = Fin 0"
  using py_pow2_pos [of r] by (simp add: ohm_sample_def ohm_denominator_def)



lemma kelvin_sample_Fin:
  "0 < R \<Longrightarrow> a_0 + a_1 * ln R + a_2 * ln R ^ 3 \<noteq> 0 \<Longrightarrow>
   kelvin_sample (Fin R) (Fin R) = Fin (1 / (a_0 + a_1 * ln R + a_2 * ln R ^ 3))"
  by (simp add: kelvin_sample_def)


lemma emg_mV:
  "raw_to_phy ''EMG'' device raw (PyInt r) ''mV'' =
     (if device \<in> set plux_devices
      then Inr (Arr (map (linear_sample 3 (1 / 2) 1 r) raw))
      else if device = ''bitalino''
      then Inr (Arr (map (linear_sample 3 (1 / 2) (1008 / 1000) r) raw))
      else if device = ''bitalino_rev'' \<or> device = ''bitalino_riot''
      then Inr (Arr (map (linear_sample 3 (1 / 2) (1009 / 1000) r) raw))
      else Inl NoTransferFunction)"
  by (simp add: raw_to_phy.simps(2))

lemma ecg_mV:
  "raw_to_phy ''ECG'' device raw (PyInt r) ''mV'' =
     (if device \<in> set plux_devices
      then Inr (Arr (map (linear_sample 3 (1 / 2) (1019 / 1000) r) raw))
      else if device \<in> set bitalino_devices
      then Inr (Arr (map (linear_sample 3 (1 / 2) (11 / 10) r) raw))
      else Inl NoTransferFunction)"
  by (simp add: raw_to_phy.simps(2))

lemma derived_V:
  "sensor = ''EMG'' \<or> sensor = ''ECG'' \<Longrightarrow>
   raw_to_phy sensor device raw (PyInt r) ''V'' =
     on_array (\<lambda>v. np_div v (Fin 1000)) (raw_to_phy sensor device raw (PyInt r) ''mV'')"
  by (subst raw_to_phy.simps(2)) auto

lemma derived_A:
  "sensor \<in> {''BVP'', ''SpO2.ARM'', ''SpO2.HEAD'', ''SpO2.FING''} \<Longrightarrow>
   raw_to_phy sensor device raw (PyInt r) ''A'' =
     on_array (\<lambda>v. np_mul v (Fin (1 / 10 ^ 6))) (raw_to_phy sensor device raw (PyInt r) ''uA'')"
  by (subst raw_to_phy.simps(2)) auto


section \<open>Units outside a sensor's unit set\<close>

text \<open>
  C1. The claim: for each of the seven sensor tags, a unit outside the sensor's
  unit set makes \<open>raw_to_phy\<close> raise, and \<open>None\<close> is never returned. The
  \<open>TEMP\<close> branch ends in an \<open>else: raise\<close> and does so. The branches of
  \<open>EMG\<close>, \<open>ECG\<close>, \<open>BVP\<close> and \<open>SpO2\<close> have no such \<open>else\<close>: \<open>out\<close>
  keeps its initial \<open>None\<close>, which is returned. The theorem evaluates both: the
  unit \<open>K\<close> on \<open>EMG\<close> returns \<open>None\<close>, the unit \<open>mV\<close> on \<open>TEMP\<close> raises.
\<close>

theorem emg_foreign_unit_returns_none:
  "raw_to_phy ''EMG'' ''bioplux'' [1] (PyInt 12) ''K'' = Inr PyNone \<and>
   raw_to_phy ''TEMP'' ''bioplux'' [1] (PyInt 12) ''mV'' = Inl InvalidUnit"
  by (simp add: raw_to_phy.simps(2))

section \<open>Derived units\<close>

text \<open>
  C2. For \<open>TEMP\<close> on a device of the PLUX list, with any raw samples and any
  integer resolution, the conversions to Kelvin and to Celsius both return an array
  of the length of the input, and the Celsius array is the Kelvin array minus
  273.15, element by element. On a finite element the subtraction is the one of
  the real numbers.
\<close>

theorem temp_celsius_is_kelvin_minus_273_15:
  assumes "device \<in> set plux_devices"
  shows "\<exists>ks. raw_to_phy ''TEMP'' device raw (PyInt r) ''K'' = Inr (Arr ks) \<and>
              length ks = length raw \<and>
              raw_to_phy ''TEMP'' device raw (PyInt r) ''C'' =
                Inr (Arr (map (\<lambda>k. np_sub k (Fin (27315 / 100))) ks)) \<and>
              (\<forall>a. np_sub (Fin a) (Fin (27315 / 100)) = Fin (a - 27315 / 100))"
proof -
  let ?ks = "map (\<lambda>x. kelvin_sample (ohm_sample r x) (ohm_sample r x)) raw"
  have K: "raw_to_phy ''TEMP'' device raw (PyInt r) ''K'' = Inr (Arr ?ks)"
    using assms by (simp add: temp_kelvin)
  have C: "raw_to_phy ''TEMP'' device raw (PyInt r) ''C'' =
             Inr (Arr (map (\<lambda>k. np_sub k (Fin (27315 / 100))) ?ks))"
    using assms K by (simp add: temp_celsius_plux)
  have "\<forall>a. np_sub (Fin a) (Fin (27315 / 100)) = Fin (a - 27315 / 100)"
    by (simp add: np_sub_def)
  with K C show ?thesis by (intro exI [of _ ?ks]) simp
qed

theorem temp_celsius_is_kelvin_minus_273_15_witness:
  "''bioplux'' \<in> set plux_devices \<and>
   raw_to_phy ''TEMP'' ''bioplux'' [0] (PyInt 12) ''K'' = Inr (Arr [Fin 0]) \<and>
   raw_to_phy ''TEMP'' ''bioplux'' [0] (PyInt 12) ''C'' = Inr (Arr [Fin (- 27315 / 100)])"
proof -
  have dev: "''bioplux'' \<in> set plux_devices"
    by (simp add: plux_devices_def)
  have K: "raw_to_phy ''TEMP'' ''bioplux'' [0] (PyInt 12) ''K'' = Inr (Arr [Fin 0])"
    using dev by (simp add: temp_kelvin ohm_sample_zero kelvin_at_zero)
  from temp_celsius_is_kelvin_minus_273_15 [OF dev, of "[0]" 12] K dev
  show ?thesis by auto
qed

text \<open>
  C3. Whenever the conversion to the primitive unit returns an array: for \<open>EMG\<close>
  and \<open>ECG\<close> the output in \<open>V\<close> is the output in \<open>mV\<close> divided by 1000, and
  for \<open>BVP\<close> and the three \<open>SpO2\<close> sensors the output in \<open>A\<close> is the output in
  \<open>uA\<close> times 1e-6, element by element. On a finite element both are the
  operations of the real numbers.
\<close>

theorem derived_unit_is_scaled_primitive:
  "(sensor \<in> {''EMG'', ''ECG''} \<longrightarrow>
      raw_to_phy sensor device raw resolution ''mV'' = Inr (Arr ys) \<longrightarrow>
      raw_to_phy sensor device raw resolution ''V'' =
        Inr (Arr (map (\<lambda>v. np_div v (Fin 1000)) ys))) \<and>
   (sensor \<in> {''BVP'', ''SpO2.ARM'', ''SpO2.HEAD'', ''SpO2.FING''} \<longrightarrow>
      raw_to_phy sensor device raw resolution ''uA'' = Inr (Arr ys) \<longrightarrow>
      raw_to_phy sensor device raw resolution ''A'' =
        Inr (Arr (map (\<lambda>v. np_mul v (Fin (1 / 10 ^ 6))) ys))) \<and>
   (\<forall>a. np_div (Fin a) (Fin 1000) = Fin (a / 1000)) \<and>
   (\<forall>a. np_mul (Fin a) (Fin (1 / 10 ^ 6)) = Fin (a * (1 / 10 ^ 6)))"
proof (cases resolution)
  case (PyInt r)
  show ?thesis
    unfolding PyInt
    by (intro conjI impI) (simp_all add: derived_V derived_A)
next
  case (PyFloat f)
  then show ?thesis by simp
qed

theorem derived_unit_is_scaled_primitive_witness:
  "raw_to_phy ''EMG'' ''bioplux'' [0, 2048] (PyInt 12) ''mV'' = Inr (Arr [Fin (- 3 / 2), Fin 0]) \<and>
   raw_to_phy ''EMG'' ''bioplux'' [0, 2048] (PyInt 12) ''V'' = Inr (Arr [Fin (- 3 / 2000), Fin 0]) \<and>
   raw_to_phy ''SpO2.HEAD'' ''swifter'' [2048] (PyInt 12) ''uA'' = Inr (Arr [Fin (3 / 40)]) \<and>
   raw_to_phy ''SpO2.HEAD'' ''swifter'' [2048] (PyInt 12) ''A'' = Inr (Arr [Fin (3 / 40000000)])"
proof -
  have mV: "raw_to_phy ''EMG'' ''bioplux'' [0, 2048] (PyInt 12) ''mV'' =
              Inr (Arr [Fin (- 3 / 2), Fin 0])"
    by (simp add: emg_mV plux_devices_def linear_sample_Fin py_pow2_def)
  have uA: "raw_to_phy ''SpO2.HEAD'' ''swifter'' [2048] (PyInt 12) ''uA'' =
              Inr (Arr [Fin (3 / 40)])"
    by (simp add: raw_to_phy.simps(2) spo2_devices_def spo2_sample_Fin py_pow2_def)
  have V: "raw_to_phy ''EMG'' ''bioplux'' [0, 2048] (PyInt 12) ''V'' =
             Inr (Arr [Fin (- 3 / 2000), Fin 0])"
    using derived_unit_is_scaled_primitive
            [of "''EMG''" "''bioplux''" "[0, 2048]" "PyInt 12" "[Fin (- 3 / 2), Fin 0]"] mV
    by simp
  have A: "raw_to_phy ''SpO2.HEAD'' ''swifter'' [2048] (PyInt 12) ''A'' =
             Inr (Arr [Fin (3 / 40000000)])"
    using derived_unit_is_scaled_primitive
            [of "''SpO2.HEAD''" "''swifter''" "[2048]" "PyInt 12" "[Fin (3 / 40)]"] uA
    by simp
  from mV V uA A show ?thesis by simp
qed

section \<open>The linear transfer function\<close>

text \<open>
  C4. For \<open>ECG\<close> on a device of the PLUX list, unit \<open>mV\<close> and an integer
  resolution \<open>r\<close>, every output sample is
  \<open>(raw * 3.0 / 2^r - 3.0 * 0.5) / 1.019\<close>. For the device \<open>bioplux\<close>, the
  samples 0, 2048, 4095 and resolution 12 the output is
  \<open>[-1500/1019, 0, 6141000/4173824]\<close>, which is \<open>[-1.4720, 0.0000, 1.4713]\<close>
  to four decimals.
\<close>

theorem ecg_plux_mV_formula:
  assumes "device \<in> set plux_devices"
  shows "raw_to_phy ''ECG'' device raw (PyInt r) ''mV'' =
           Inr (Arr (map (\<lambda>x. Fin ((real_of_int x * 3 / py_pow2 r - 3 * (1 / 2)) / (1019 / 1000)))
                      raw)) \<and>
         (0 \<le> r \<longrightarrow> py_pow2 r = 2 ^ nat r) \<and>
         raw_to_phy ''ECG'' ''bioplux'' [0, 2048, 4095] (PyInt 12) ''mV'' =
           Inr (Arr [Fin (- 1500 / 1019), Fin 0, Fin (6141000 / 4173824)]) \<and>
         \<bar>- 1500 / 1019 - (- 14720 / 10000)\<bar> \<le> (5 / 10 ^ 5 :: real) \<and>
         \<bar>6141000 / 4173824 - 14713 / 10000\<bar> \<le> (5 / 10 ^ 5 :: real)"
proof -
  have general: "raw_to_phy ''ECG'' d raw' (PyInt r') ''mV'' =
      Inr (Arr (map (\<lambda>x. Fin ((real_of_int x * 3 / py_pow2 r' - 3 * (1 / 2)) / (1019 / 1000)))
                 raw'))"
    if "d \<in> set plux_devices" for d raw' r'
    using that by (simp add: ecg_mV linear_sample_Fin)
  have dev: "''bioplux'' \<in> set plux_devices"
    by (simp add: plux_devices_def)
  have example: "raw_to_phy ''ECG'' ''bioplux'' [0, 2048, 4095] (PyInt 12) ''mV'' =
          Inr (Arr [Fin (- 1500 / 1019), Fin 0, Fin (6141000 / 4173824)])"
    by (simp add: general [OF dev] py_pow2_def)
  have first: "\<bar>- 1500 / 1019 - (- 14720 / 10000)\<bar> \<le> (5 / 10 ^ 5 :: real)"
    by simp
  have third: "\<bar>6141000 / 4173824 - 14713 / 10000\<bar> \<le> (5 / 10 ^ 5 :: real)"
    by simp
  have pow: "0 \<le> r \<longrightarrow> py_pow2 r = 2 ^ nat r"
    by (simp add: py_pow2_def)
  from general [OF assms] pow example first third show ?thesis
    by (intro conjI)
qed

theorem ecg_plux_mV_formula_witness:
  "''swifter'' \<in> set plux_devices \<and>
   raw_to_phy ''ECG'' ''swifter'' [0, 512] (PyInt 10) ''mV'' =
     Inr (Arr [Fin (- 1500 / 1019), Fin 0])"
proof -
  have dev: "''swifter'' \<in> set plux_devices"
    by (simp add: plux_devices_def)
  from ecg_plux_mV_formula [OF dev, of "[0, 512]" 10] dev
  show ?thesis by (simp add: py_pow2_def)
qed

text \<open>
  The values \<open>0.0015\<close> and \<open>1.4746\<close> are more than 0.001 away from the
  second and the third output of that example: the second output is exactly 0,
  since \<open>2048 * 3.0 / 4096 = 3.0 * 0.5\<close>, and the third is 1.47131...
\<close>

theorem ecg_example_values_counterexample:
  "raw_to_phy ''ECG'' ''bioplux'' [0, 2048, 4095] (PyInt 12) ''mV'' =
     Inr (Arr [Fin (- 1500 / 1019), Fin 0, Fin (6141000 / 4173824)]) \<and>
   \<not> \<bar>0 - 15 / 10000\<bar> \<le> (1 / 1000 :: real) \<and>
   \<not> \<bar>6141000 / 4173824 - 14746 / 10000\<bar> \<le> (1 / 1000 :: real)"
  by (simp add: ecg_mV plux_devices_def linear_sample_Fin py_pow2_def)




section \<open>The temperature sensor\<close>





section \<open>The check of the resolution\<close>

lemma on_array_error:
  "on_array f y = Inl e \<longleftrightarrow> y = Inl e \<or> (y = Inr PyNone \<and> e = TypeError)"
  by (cases "(f, y)" rule: on_array.cases) auto

lemma on_arrays_error:
  "on_arrays f y y = Inl e \<longleftrightarrow> y = Inl e \<or> (y = Inr PyNone \<and> e = TypeError)"
  by (simp add: on_arrays_same on_array_error)

lemma primitive_unit_accepted:
  "raw_to_phy sensor device raw (PyInt r) ''Ohm'' \<noteq> Inl ResolutionNotInteger"
  "raw_to_phy sensor device raw (PyInt r) ''mV'' \<noteq> Inl ResolutionNotInteger"
  "raw_to_phy sensor device raw (PyInt r) ''uA'' \<noteq> Inl ResolutionNotInteger"
  by (subst raw_to_phy.simps(2), simp add: Let_def split: option.splits)+

lemma kelvin_unit_accepted:
  "raw_to_phy sensor device raw (PyInt r) ''K'' \<noteq> Inl ResolutionNotInteger"
  by (subst raw_to_phy.simps(2))
     (simp add: on_arrays_error primitive_unit_accepted Let_def)

lemma int_resolution_accepted:
  "raw_to_phy sensor device raw (PyInt r) option \<noteq> Inl ResolutionNotInteger"
  by (subst raw_to_phy.simps(2))
     (simp add: on_array_error on_arrays_error primitive_unit_accepted
                kelvin_unit_accepted Let_def split: option.splits)

text \<open>
  C8. For every sensor, device, raw sample list and unit, \<open>raw_to_phy\<close> rejects
  a resolution that is not an \<open>int\<close> with the error of the resolution check,
  before any arithmetic on the samples. An \<open>int\<close> passes the check whatever
  its sign: no call with an \<open>int\<close> resolution ends in that error.
\<close>

theorem non_integer_resolution_rejected:
  "raw_to_phy sensor device raw (PyFloat f) option = Inl ResolutionNotInteger \<and>
   raw_to_phy sensor device raw (PyInt r) option \<noteq> Inl ResolutionNotInteger"
  by (simp add: int_resolution_accepted)

text \<open>
  The resolutions 0 and -1 are converted with \<open>2 ** 0 = 1\<close> and
  \<open>2 ** -1 = 0.5\<close>.
\<close>

theorem nonpositive_resolution_counterexample:
  "raw_to_phy ''ECG'' ''bioplux'' [0, 1] (PyInt 0) ''mV'' =
     Inr (Arr [Fin (- 1500 / 1019), Fin (1500 / 1019)]) \<and>
   raw_to_phy ''ECG'' ''bioplux'' [0, 1] (PyInt (- 1)) ''mV'' =
     Inr (Arr [Fin (- 1500 / 1019), Fin (4500 / 1019)])"
  by (simp add: ecg_mV plux_devices_def linear_sample_Fin py_pow2_def)

section \<open>The time axis\<close>

lemma length_linspace: "length (linspace a b n) = n"
  by (simp add: linspace_def Let_def)

lemma linspace_one: "linspace a b (Suc 0) = [a]"
  by (simp add: linspace_def Let_def)

lemma linspace_nth:
  assumes "2 \<le> n" and "i < n"
  shows "linspace a b n ! i = a + real i * ((b - a) / (real n - 1))"
proof (cases "i = n - 1")
  case True
  from assms have "real n - 1 \<noteq> 0" by simp
  then have "a + (real n - 1) * ((b - a) / (real n - 1)) = b" by simp
  moreover from assms True have "real i = real n - 1" by (simp add: of_nat_diff)
  moreover from assms True have "linspace a b n ! i = b"
    by (simp add: linspace_def Let_def)
  ultimately show ?thesis by simp
next
  case False
  with assms show ?thesis
    by (simp add: linspace_def Let_def of_nat_diff)
qed

lemma generate_time_nonzero:
  "num_val sample_rate \<noteq> 0 \<Longrightarrow>
   generate_time signal sample_rate =
     Inr (linspace 0 (real (length signal) / num_val sample_rate) (length signal))"
  by (simp add: generate_time_def Let_def)

lemma generate_time_spacing:
  assumes "2 \<le> length signal" and "num_val sample_rate \<noteq> 0"
  shows "\<exists>ts. generate_time signal sample_rate = Inr ts \<and>
              length ts = length signal \<and>
              (\<forall>i<length signal.
                 ts ! i = real i * (real (length signal) / num_val sample_rate /
                                    (real (length signal) - 1)))"
proof -
  let ?n = "length signal"
  let ?ts = "linspace 0 (real ?n / num_val sample_rate) ?n"
  have "generate_time signal sample_rate = Inr ?ts"
    using assms(2) by (rule generate_time_nonzero)
  moreover have "length ?ts = ?n"
    by (rule length_linspace)
  moreover have "\<forall>i<?n. ?ts ! i = real i * (real ?n / num_val sample_rate / (real ?n - 1))"
    using assms(1) by (simp add: linspace_nth)
  ultimately show ?thesis by blast
qed

lemma generate_time_three: "generate_time [5, 6, 7 :: int] (PyInt 3) = Inr [0, 1 / 2, 1]"
  by (simp add: generate_time_def linspace_def Let_def upt_rec)

text \<open>
  C6. For a signal of \<open>n \<ge> 2\<close> samples and a positive sample rate,
  \<open>generate_time\<close> returns \<open>n\<close> timestamps, the first 0, the last
  \<open>n / sample_rate\<close>, each \<open>(n / sample_rate) / (n - 1)\<close> after the one
  before, so strictly increasing. For a signal of one sample it returns the one
  timestamp 0. For a signal of 1000 samples at rate 1000 the first timestamp is
  0, the last 1 and the spacing \<open>1 / 999\<close>.
\<close>

theorem generate_time_axis:
  "(2 \<le> length signal \<and> 0 < num_val sample_rate \<longrightarrow>
      (\<exists>ts. generate_time signal sample_rate = Inr ts \<and>
            length ts = length signal \<and>
            ts ! 0 = 0 \<and>
            last ts = real (length signal) / num_val sample_rate \<and>
            (\<forall>i. i + 1 < length signal \<longrightarrow>
               ts ! (i + 1) - ts ! i =
                 real (length signal) / num_val sample_rate / (real (length signal) - 1)) \<and>
            sorted_wrt (<) ts)) \<and>
   (length signal = 1 \<and> 0 < num_val sample_rate \<longrightarrow>
      generate_time signal sample_rate = Inr [0]) \<and>
   (length signal = 1000 \<longrightarrow>
      (\<exists>ts. generate_time signal (PyInt 1000) = Inr ts \<and>
            length ts = 1000 \<and> ts ! 0 = 0 \<and> last ts = 1 \<and>
            (\<forall>i. i + 1 < 1000 \<longrightarrow> ts ! (i + 1) - ts ! i = 1 / 999)))"
proof (intro conjI impI)
  assume "2 \<le> length signal \<and> 0 < num_val sample_rate"
  then have n: "2 \<le> length signal" and rate: "0 < num_val sample_rate"
    by simp_all
  let ?n = "length signal"
  let ?step = "real ?n / num_val sample_rate / (real ?n - 1)"
  from rate have nonzero: "num_val sample_rate \<noteq> 0"
    by simp
  from generate_time_spacing [OF n nonzero] obtain ts where
    ts: "generate_time signal sample_rate = Inr ts"
    and len: "length ts = ?n"
    and nth: "\<And>i. i < ?n \<Longrightarrow> ts ! i = real i * ?step"
    by blast
  from n have "0 < real ?n" and "0 < real ?n - 1"
    by linarith+
  with rate have step: "0 < ?step"
    by (intro divide_pos_pos)
  from n have pos: "0 < ?n" and pred: "?n - 1 < ?n"
    by linarith+
  have first: "ts ! 0 = 0"
    using nth [OF pos] by simp
  from pos len have "ts \<noteq> []"
    by auto
  then have last_nth: "last ts = ts ! (?n - 1)"
    by (simp add: last_conv_nth len)
  have cast: "real (?n - 1) = real ?n - 1"
    using pos by linarith
  have "ts ! (?n - 1) = (real ?n - 1) * ?step"
    using nth [OF pred] by (simp only: cast)
  moreover have "(real ?n - 1) * ?step = real ?n / num_val sample_rate"
    using \<open>0 < real ?n - 1\<close> by simp
  ultimately have last: "last ts = real ?n / num_val sample_rate"
    using last_nth by simp
  have "ts ! (i + 1) - ts ! i = ?step" if "i + 1 < ?n" for i
  proof -
    from that have "i < ?n" by simp
    then have "ts ! i = real i * ?step" by (rule nth)
    moreover have "ts ! (i + 1) = real (i + 1) * ?step"
      using that by (rule nth)
    ultimately have "ts ! (i + 1) - ts ! i = (real (i + 1) - real i) * ?step"
      by (simp only: left_diff_distrib)
    then show ?thesis by simp
  qed
  then have spacing: "\<forall>i. i + 1 < ?n \<longrightarrow> ts ! (i + 1) - ts ! i = ?step"
    by blast
  have "ts ! i < ts ! j" if "i < j" and "j < length ts" for i j
  proof -
    from that len have "ts ! i = real i * ?step" and "ts ! j = real j * ?step"
      by (simp_all add: nth)
    moreover from that have "real i < real j"
      by simp
    then have "real i * ?step < real j * ?step"
      using step by (rule mult_strict_right_mono)
    ultimately show ?thesis by simp
  qed
  then have sorted: "sorted_wrt (<) ts"
    by (simp add: sorted_wrt_iff_nth_less)
  from ts len first last spacing sorted
  show "\<exists>ts. generate_time signal sample_rate = Inr ts \<and>
              length ts = length signal \<and>
              ts ! 0 = 0 \<and>
              last ts = real (length signal) / num_val sample_rate \<and>
              (\<forall>i. i + 1 < length signal \<longrightarrow>
                 ts ! (i + 1) - ts ! i =
                   real (length signal) / num_val sample_rate / (real (length signal) - 1)) \<and>
              sorted_wrt (<) ts"
    by blast
next
  assume "length signal = 1 \<and> 0 < num_val sample_rate"
  then show "generate_time signal sample_rate = Inr [0]"
    by (simp add: generate_time_nonzero linspace_one)
next
  assume n: "length signal = 1000"
  have rate: "num_val (PyInt 1000) \<noteq> 0"
    by simp
  from n have "2 \<le> length signal"
    by simp
  from generate_time_spacing [OF this rate] n obtain ts where
    ts: "generate_time signal (PyInt 1000) = Inr ts"
    and len: "length ts = 1000"
    and nth: "\<And>i. i < 1000 \<Longrightarrow> ts ! i = real i * (1 / 999)"
    by auto
  have first: "ts ! 0 = 0"
    using nth [of 0] by simp
  from len have "ts \<noteq> []"
    by auto
  then have "last ts = ts ! (length ts - 1)"
    by (rule last_conv_nth)
  then have last: "last ts = 1"
    using nth [of 999] by (simp add: len)
  have "ts ! (i + 1) - ts ! i = 1 / 999" if "i + 1 < 1000" for i
  proof -
    from that have "i < 1000" by simp
    then have "ts ! i = real i * (1 / 999)" by (rule nth)
    moreover have "ts ! (i + 1) = real (i + 1) * (1 / 999)"
      using that by (rule nth)
    ultimately have "ts ! (i + 1) - ts ! i = (real (i + 1) - real i) * (1 / 999)"
      by (simp only: left_diff_distrib)
    then show ?thesis by simp
  qed
  then have spacing: "\<forall>i. i + 1 < 1000 \<longrightarrow> ts ! (i + 1) - ts ! i = 1 / 999"
    by blast
  from ts len first last spacing
  show "\<exists>ts. generate_time signal (PyInt 1000) = Inr ts \<and>
              length ts = 1000 \<and> ts ! 0 = 0 \<and> last ts = 1 \<and>
              (\<forall>i. i + 1 < 1000 \<longrightarrow> ts ! (i + 1) - ts ! i = 1 / 999)"
    by blast
qed

theorem generate_time_axis_witness:
  "generate_time [5, 6, 7 :: int] (PyInt 3) = Inr [0, 1 / 2, 1] \<and>
   (\<exists>ts. generate_time [5, 6, 7 :: int] (PyInt 3) = Inr ts \<and>
         length ts = length [5, 6, 7 :: int] \<and>
         ts ! 0 = 0 \<and>
         last ts = real (length [5, 6, 7 :: int]) / num_val (PyInt 3) \<and>
         (\<forall>i. i + 1 < length [5, 6, 7 :: int] \<longrightarrow>
            ts ! (i + 1) - ts ! i =
              real (length [5, 6, 7 :: int]) / num_val (PyInt 3) /
              (real (length [5, 6, 7 :: int]) - 1)) \<and>
         sorted_wrt (<) ts) \<and>
   generate_time [5 :: int] (PyInt 3) = Inr [0]"
proof -
  have three: "2 \<le> length [5, 6, 7 :: int] \<and> 0 < num_val (PyInt 3)"
    by simp
  have one: "length [5 :: int] = 1 \<and> 0 < num_val (PyInt 3)"
    by simp
  from generate_time_axis [of "[5, 6, 7 :: int]" "PyInt 3"] three
       generate_time_axis [of "[5 :: int]" "PyInt 3"] one generate_time_three
  show ?thesis by blast
qed

text \<open>
  On one sample the last timestamp is 0, which is not \<open>n / sample_rate = 1\<close>.
\<close>

theorem single_sample_counterexample:
  "generate_time [5 :: int] (PyInt 1) = Inr [0] \<and>
   last [0 :: real] \<noteq> real (length [5 :: int]) / num_val (PyInt 1)"
  by (simp add: generate_time_def linspace_def Let_def)

text \<open>
  C7. \<open>generate_time\<close> does not check the sample rate. A sample rate of zero
  fails, by the division of \<open>nbr_of_samples / sample_rate\<close>. A negative sample
  rate returns as many timestamps as there are samples; for two samples or more
  they start at 0 and end at the negative \<open>n / sample_rate\<close>.
\<close>

theorem sample_rate_not_validated:
  "(num_val sample_rate = 0 \<longrightarrow> generate_time signal sample_rate = Inl ZeroDivisionError) \<and>
   (num_val sample_rate < 0 \<longrightarrow>
      (\<exists>ts. generate_time signal sample_rate = Inr ts \<and>
            length ts = length signal \<and>
            (2 \<le> length signal \<longrightarrow>
               ts ! 0 = 0 \<and> last ts = real (length signal) / num_val sample_rate)))"
proof (intro conjI impI)
  assume "num_val sample_rate = 0"
  then show "generate_time signal sample_rate = Inl ZeroDivisionError"
    by (simp add: generate_time_def)
next
  assume "num_val sample_rate < 0"
  then have rate: "num_val sample_rate \<noteq> 0"
    by simp
  let ?n = "length signal"
  let ?stop = "real ?n / num_val sample_rate"
  let ?ts = "linspace 0 ?stop ?n"
  have ts: "generate_time signal sample_rate = Inr ?ts"
    using rate by (rule generate_time_nonzero)
  have len: "length ?ts = ?n"
    by (rule length_linspace)
  have ends: "?ts ! 0 = 0 \<and> last ?ts = ?stop" if n: "2 \<le> ?n"
  proof -
    from n have pos: "0 < ?n" and pred: "?n - 1 < ?n"
      by linarith+
    from pos len have "?ts \<noteq> []"
      by auto
    then have "last ?ts = ?ts ! (?n - 1)"
      by (simp add: last_conv_nth len)
    moreover have "?ts ! (?n - 1) = ?stop"
      using n by (simp add: linspace_def Let_def)
    moreover have "?ts ! 0 = 0"
      using linspace_nth [OF n pos, of 0 ?stop] by simp
    ultimately show ?thesis by simp
  qed
  from ts len ends
  show "\<exists>ts. generate_time signal sample_rate = Inr ts \<and>
              length ts = length signal \<and>
              (2 \<le> length signal \<longrightarrow>
                 ts ! 0 = 0 \<and> last ts = real (length signal) / num_val sample_rate)"
    by blast
qed

theorem sample_rate_not_validated_witness:
  "generate_time [1 :: int, 2] (PyInt 0) = Inl ZeroDivisionError \<and>
   generate_time [1 :: int, 2] (PyFloat 0) = Inl ZeroDivisionError \<and>
   (\<exists>ts. generate_time [1 :: int, 2] (PyInt (- 4)) = Inr ts \<and>
         length ts = 2 \<and> ts ! 0 = 0 \<and> last ts = - 1 / 2)"
  using sample_rate_not_validated [of "PyInt 0" "[1 :: int, 2]"]
        sample_rate_not_validated [of "PyFloat 0" "[1 :: int, 2]"]
        sample_rate_not_validated [of "PyInt (- 4)" "[1 :: int, 2]"]
  by (auto simp: numeral_2_eq_2)

theorem negative_sample_rate_counterexample:
  "generate_time [1 :: int, 2] (PyInt (- 1)) = Inr [0, - 2]"
  by (simp add: generate_time_def linspace_def Let_def upt_rec)

end
